theory Spec2Isabelle
  imports Complex_Main "HOL-Library.Word" "HOL-Library.Stream"
begin

section \<open>Single-precision values\<close>

text \<open>
  The kernels compute in C \<^verbatim>\<open>float\<close>.  A value is modelled as an exact real number or one
  of the three special values of IEEE-754 arithmetic.  The special values follow the IEEE
  rules (\<^verbatim>\<open>0/0\<close>, \<^verbatim>\<open>inf - inf\<close> and \<^verbatim>\<open>0 * inf\<close> are NaN, every comparison with NaN is
  false, \<^verbatim>\<open>x != x\<close> holds exactly for NaN).  Rounding and overflow of finite results are
  not modelled, and zero carries no sign: it behaves as \<^verbatim>\<open>+0\<close>.  The library functions
  (\<^verbatim>\<open>exp\<close>, \<^verbatim>\<open>sqrt\<close>, \<^verbatim>\<open>cosf\<close>, \<^verbatim>\<open>sinf\<close>, \<^verbatim>\<open>acos\<close>, \<^verbatim>\<open>floorf\<close>, \<^verbatim>\<open>fmin\<close>) are the real
  functions on finite arguments of their domain and follow the C library on the others.
\<close>

datatype float = Fin real | PInf | MInf | NaN

fun fsign :: "float \<Rightarrow> real" where
  "fsign (Fin a) = sgn a"
| "fsign PInf = 1"
| "fsign MInf = - 1"
| "fsign NaN = 0"

instantiation float :: "{plus, minus, uminus, times, inverse, ord}"
begin

fun plus_float :: "float \<Rightarrow> float \<Rightarrow> float" where
  "plus_float NaN b = NaN"
| "plus_float a NaN = NaN"
| "plus_float (Fin a) (Fin b) = Fin (a + b)"
| "plus_float PInf MInf = NaN"
| "plus_float MInf PInf = NaN"
| "plus_float PInf b = PInf"
| "plus_float MInf b = MInf"
| "plus_float (Fin a) b = b"

fun uminus_float :: "float \<Rightarrow> float" where
  "uminus_float (Fin a) = Fin (- a)"
| "uminus_float PInf = MInf"
| "uminus_float MInf = PInf"
| "uminus_float NaN = NaN"

definition minus_float :: "float \<Rightarrow> float \<Rightarrow> float" where
  "minus_float a b = a + (- b)"

fun times_float :: "float \<Rightarrow> float \<Rightarrow> float" where
  "times_float NaN b = NaN"
| "times_float a NaN = NaN"
| "times_float (Fin a) (Fin b) = Fin (a * b)"
| "times_float a b =
     (if fsign a * fsign b = 0 then NaN else if 0 < fsign a * fsign b then PInf else MInf)"

fun divide_float :: "float \<Rightarrow> float \<Rightarrow> float" where
  "divide_float NaN b = NaN"
| "divide_float a NaN = NaN"
| "divide_float (Fin a) (Fin b) =
     (if b = 0 then (if a = 0 then NaN else if 0 < a then PInf else MInf) else Fin (a / b))"
| "divide_float (Fin a) b = Fin 0"
| "divide_float a (Fin b) = (if 0 \<le> fsign a * b then PInf else MInf)"
| "divide_float a b = NaN"

definition inverse_float :: "float \<Rightarrow> float" where
  "inverse_float a = divide (Fin 1) a"

fun less_float :: "float \<Rightarrow> float \<Rightarrow> bool" where
  "less_float NaN b = False"
| "less_float a NaN = False"
| "less_float (Fin a) (Fin b) = (a < b)"
| "less_float a MInf = False"
| "less_float PInf b = False"
| "less_float a b = True"

fun less_eq_float :: "float \<Rightarrow> float \<Rightarrow> bool" where
  "less_eq_float NaN b = False"
| "less_eq_float a NaN = False"
| "less_eq_float (Fin a) (Fin b) = (a \<le> b)"
| "less_eq_float MInf b = True"
| "less_eq_float a PInf = True"
| "less_eq_float a b = False"

instance ..

end

text \<open>The C comparison \<^verbatim>\<open>a != b\<close>: true whenever an operand is NaN.\<close>

definition fne :: "float \<Rightarrow> float \<Rightarrow> bool" where
  "fne a b = (a = NaN \<or> b = NaN \<or> a \<noteq> b)"

fun fexp :: "float \<Rightarrow> float" where
  "fexp (Fin a) = Fin (exp a)"
| "fexp PInf = PInf"
| "fexp MInf = Fin 0"
| "fexp NaN = NaN"

fun fsqrt :: "float \<Rightarrow> float" where
  "fsqrt (Fin a) = (if a < 0 then NaN else Fin (sqrt a))"
| "fsqrt PInf = PInf"
| "fsqrt a = NaN"

fun fcos :: "float \<Rightarrow> float" where
  "fcos (Fin a) = Fin (cos a)"
| "fcos a = NaN"

fun fsin :: "float \<Rightarrow> float" where
  "fsin (Fin a) = Fin (sin a)"
| "fsin a = NaN"

fun facos :: "float \<Rightarrow> float" where
  "facos (Fin a) = (if - 1 \<le> a \<and> a \<le> 1 then Fin (arccos a) else NaN)"
| "facos a = NaN"

fun floorf :: "float \<Rightarrow> float" where
  "floorf (Fin a) = Fin (of_int \<lfloor>a\<rfloor>)"
| "floorf a = a"

text \<open>
  Conversion of a float to a 32-bit integer with truncation towards zero, as the SSE
  instruction behind \<^verbatim>\<open>_mm_cvtt_ss2si\<close> performs it: a value outside the range of a signed
  32-bit integer (and NaN) gives the bit pattern \<^verbatim>\<open>0x80000000\<close>.  The C casts
  \<^verbatim>\<open>int(...)\<close> of the constructor compile to the same instruction; the result is
  then read as \<^verbatim>\<open>unsigned int\<close>.
\<close>

definition trunc_real :: "real \<Rightarrow> int" where
  "trunc_real a = (if 0 \<le> a then \<lfloor>a\<rfloor> else \<lceil>a\<rceil>)"

fun cvtt_ss2si :: "float \<Rightarrow> 32 word" where
  "cvtt_ss2si (Fin a) =
     (if - (2 ^ 31) \<le> trunc_real a \<and> trunc_real a < 2 ^ 31
      then word_of_int (trunc_real a) else 0x80000000)"
| "cvtt_ss2si a = 0x80000000"

section \<open>Vectors and quaternions\<close>

datatype vec3 = Vec3 (vx: float) (vy: float) (vz: float)

datatype quat = Quat (qs: float) (qv: vec3)

text \<open>
  Modelled from the spec: the header \<^verbatim>\<open>VectorMath.h\<close> is not part of the sources.  The
  spec names the operations (\<^verbatim>\<open>conj\<close>, \<^verbatim>\<open>mul\<close>, \<^verbatim>\<open>rotate\<close>, \<^verbatim>\<open>from_axis_angle\<close>) and fixes
  the standard Hamilton convention; they are written out here in that convention.
\<close>

definition dot :: "vec3 \<Rightarrow> vec3 \<Rightarrow> float" where
  "dot a b = vx a * vx b + vy a * vy b + vz a * vz b"

definition cross :: "vec3 \<Rightarrow> vec3 \<Rightarrow> vec3" where
  "cross a b = Vec3 (vy a * vz b - vz a * vy b)
                    (vz a * vx b - vx a * vz b)
                    (vx a * vy b - vy a * vx b)"

definition vscale :: "float \<Rightarrow> vec3 \<Rightarrow> vec3" where
  "vscale a v = Vec3 (a * vx v) (a * vy v) (a * vz v)"

definition vdiv :: "vec3 \<Rightarrow> float \<Rightarrow> vec3" where
  "vdiv v a = Vec3 (vx v / a) (vy v / a) (vz v / a)"

definition vadd :: "vec3 \<Rightarrow> vec3 \<Rightarrow> vec3" where
  "vadd a b = Vec3 (vx a + vx b) (vy a + vy b) (vz a + vz b)"

definition vneg :: "vec3 \<Rightarrow> vec3" where
  "vneg v = Vec3 (- vx v) (- vy v) (- vz v)"

definition conj_quat :: "quat \<Rightarrow> quat" where
  "conj_quat a = Quat (qs a) (vneg (qv a))"

definition qmul :: "quat \<Rightarrow> quat \<Rightarrow> quat" where
  "qmul a b = Quat (qs a * qs b - dot (qv a) (qv b))
                   (vadd (vadd (vscale (qs a) (qv b)) (vscale (qs b) (qv a)))
                         (cross (qv a) (qv b)))"

definition rotate_quat :: "quat \<Rightarrow> vec3 \<Rightarrow> vec3" where
  "rotate_quat a b =
     vadd (vadd (vscale (qs a * qs a - dot (qv a) (qv a)) b)
                (vscale (Fin 2 * qs a) (cross (qv a) b)))
          (vscale (Fin 2 * dot (qv a) b) (qv a))"

definition fromAxisAngle :: "vec3 \<Rightarrow> float \<Rightarrow> quat" where
  "fromAxisAngle axis theta =
     Quat (fcos (theta / Fin 2)) (vscale (fsin (theta / Fin 2)) axis)"

section \<open>Rank-4 tensors\<close>

text \<open>
  A tensor is a flat array of 81 floats.  Every primitive of the source is a loop over the
  indices \<open>0 .. 80\<close> of raw pointers; the model reads the same indices of a list.
\<close>

type_synonym tensor = "float list"

definition tensorProduct :: "vec3 \<Rightarrow> tensor" where
  "tensorProduct vector =
     (let v = [vx vector, vy vector, vz vector] in
      concat (map (\<lambda>i. concat (map (\<lambda>j. concat (map (\<lambda>k.
        map (\<lambda>l. v ! i * v ! j * v ! k * v ! l) [0..<3]) [0..<3])) [0..<3])) [0..<3]))"

definition tensorMult :: "tensor \<Rightarrow> float \<Rightarrow> tensor" where
  "tensorMult t a = map (\<lambda>i. t ! i * a) [0..<81]"

definition tensorDot :: "tensor \<Rightarrow> tensor \<Rightarrow> float" where
  "tensorDot tensor_a tensor_b =
     foldl (\<lambda>l_sum i. l_sum + tensor_a ! i * tensor_b ! i) (Fin 0) [0..<81]"

definition tensorAdd :: "tensor \<Rightarrow> tensor \<Rightarrow> tensor" where
  "tensorAdd tensor_i tensor_j = map (\<lambda>i. tensor_i ! i + tensor_j ! i) [0..<81]"

definition tensorSub :: "tensor \<Rightarrow> tensor \<Rightarrow> tensor" where
  "tensorSub tensor_i tensor_j = map (\<lambda>i. tensor_i ! i - tensor_j ! i) [0..<81]"

definition zero_tensor :: tensor where
  "zero_tensor = replicate 81 (Fin 0)"

section \<open>The idealized cubatic tensor\<close>

definition system_vectors :: "vec3 list" where
  "system_vectors = [Vec3 (Fin 1) (Fin 0) (Fin 0),
                     Vec3 (Fin 0) (Fin 1) (Fin 0),
                     Vec3 (Fin 0) (Fin 0) (Fin 1)]"

definition calcCubaticTensor :: "tensor \<Rightarrow> quat \<Rightarrow> tensor" where
  "calcCubaticTensor gen_r4_tensor orientation =
     (let rotated = map (\<lambda>i. rotate_quat orientation (system_vectors ! i)) [0..<3];
          calculated_tensor =
            foldl (\<lambda>calc v_idx. tensorAdd calc (tensorProduct (rotated ! v_idx)))
                  zero_tensor [0..<3];
          calculated_tensor = tensorMult calculated_tensor (Fin 2)
      in tensorSub calculated_tensor gen_r4_tensor)"


section \<open>The cubatic order parameter engine\<close>

datatype error = InvalidArgument string | RuntimeError string

text \<open>
  The generator \<^verbatim>\<open>m_gen\<close> is modelled by the stream of canonical uniform numbers of
  \<open>[0, 1)\<close> that it is going to deliver.  A call of a
  \<^verbatim>\<open>std::uniform_real_distribution<float>(a, b)\<close> consumes one of them and scales it to
  its range.  The seed comes from \<^verbatim>\<open>std::random_device\<close>, so the stream is an input.
\<close>

type_synonym generator = "real stream"

definition uniform_real_distribution :: "real \<Rightarrow> real \<Rightarrow> generator \<Rightarrow> float \<times> generator" where
  "uniform_real_distribution a b g = (Fin ((b - a) * shd g + a), stl g)"

definition m_theta_dist :: "generator \<Rightarrow> float \<times> generator" where
  "m_theta_dist = uniform_real_distribution 0 (2 * pi)"

definition m_phi_dist :: "generator \<Rightarrow> float \<times> generator" where
  "m_phi_dist = uniform_real_distribution 0 1"

definition m_angle_dist :: "generator \<Rightarrow> float \<times> generator" where
  "m_angle_dist = uniform_real_distribution 0 (2 * pi)"

record CubaticOrderParameter =
  m_t_initial :: float
  m_t_final :: float
  m_scale :: float
  m_n :: nat
  m_n_replicates :: nat
  m_global_tensor :: tensor
  m_cubatic_tensor :: tensor
  m_particle_tensor :: "float list"
  m_gen_r4_tensor :: tensor
  m_cubatic_order_parameter :: float
  m_cubatic_orientation :: quat
  m_gen :: generator

text \<open>
  The constructor.  It leaves \<^verbatim>\<open>m_cubatic_order_parameter\<close> uninitialized and
  default-constructs \<^verbatim>\<open>m_cubatic_orientation\<close>; the model takes what these two members
  hold as the arguments \<open>order_parameter0\<close> and \<open>orientation0\<close>, and the freshly
  seeded generator as \<open>gen0\<close>.
\<close>

definition CubaticOrderParameter_init ::
  "float \<Rightarrow> float \<Rightarrow> float \<Rightarrow> tensor \<Rightarrow> float \<Rightarrow> quat \<Rightarrow> generator
     \<Rightarrow> error + CubaticOrderParameter" where
  "CubaticOrderParameter_init t_initial t_final scale r4_tensor order_parameter0 orientation0 gen0 =
     (if t_initial < t_final then
        Inl (InvalidArgument ''t_initial must be greater than t_final'')
      else if t_final < Fin (1 / 10 ^ 6) then
        Inl (InvalidArgument ''t_final must be > 1e-6'')
      else if Fin 1 < scale \<or> scale < Fin 0 then
        Inl (InvalidArgument ''scale must be between 0 and 1'')
      else Inr \<lparr> m_t_initial = t_initial, m_t_final = t_final, m_scale = scale,
                 m_n = 0, m_n_replicates = 1,
                 m_global_tensor = zero_tensor,
                 m_cubatic_tensor = zero_tensor,
                 m_particle_tensor = [],
                 m_gen_r4_tensor = map (\<lambda>i. r4_tensor ! i) [0..<81],
                 m_cubatic_order_parameter = order_parameter0,
                 m_cubatic_orientation = orientation0,
                 m_gen = gen0 \<rparr>)"

text \<open>
  Modelled from the spec: the class \<^verbatim>\<open>Index2D\<close> is not part of the sources.  The spec
  describes the particle-tensor array as a dense \<open>N \<times> 81\<close> row-major buffer whose row
  \<open>i\<close> is the tensor of particle \<open>i\<close>; \<open>Index2D n 81 i j\<close> is the offset of
  element \<open>j\<close> of that row.  The rows are contiguous in this layout, which is what the
  in-place subtraction of \<^verbatim>\<open>compute\<close> relies on: it passes the address of cell
  \<open>Index2D n 81 i 0\<close> to \<^verbatim>\<open>tensorSub\<close>, which works on the 81 cells from there.
\<close>

definition Index2D :: "nat \<Rightarrow> nat \<Rightarrow> nat \<Rightarrow> nat \<Rightarrow> nat" where
  "Index2D w h i j = i * h + j"

text \<open>
  \<^verbatim>\<open>ComputeParticleTensor::operator()\<close>.  The parallel loop over the particles writes
  disjoint cells; it is modelled by the sequential loop over the whole range.
\<close>

definition particle_l_mbar :: "quat \<Rightarrow> tensor" where
  "particle_l_mbar l_orientation =
     (let l_mbar =
            foldl (\<lambda>l_mbar j.
                     tensorAdd (tensorProduct (rotate_quat l_orientation (system_vectors ! j))) l_mbar)
                  zero_tensor [0..<3]
      in tensorMult l_mbar (Fin 2))"

definition ComputeParticleTensor :: "float list \<Rightarrow> quat list \<Rightarrow> nat \<Rightarrow> float list" where
  "ComputeParticleTensor particle_tensor orientations n =
     foldl (\<lambda>pt i.
              let l_mbar = particle_l_mbar (orientations ! i)
              in foldl (\<lambda>pt j. pt[Index2D n 81 i j := l_mbar ! j]) pt [0..<81])
           particle_tensor [0..<n]"

text \<open>\<^verbatim>\<open>ComputeGlobalTensor::operator()\<close>, over the whole range of tensor indices.\<close>

definition ComputeGlobalTensor :: "float list \<Rightarrow> nat \<Rightarrow> tensor" where
  "ComputeGlobalTensor particle_tensor n =
     (let n_inv = Fin 1 / Fin (real n)
      in map (\<lambda>i. foldl (\<lambda>tensor_value j. tensor_value + particle_tensor ! Index2D n 81 j i)
                         (Fin 0) [0..<n] * n_inv)
             [0..<81])"

text \<open>
  \<^verbatim>\<open>tensorSub(&p[base], &p[base], t)\<close>: the subtraction applied in place to the 81 cells
  that start at \<open>base\<close>.
\<close>

definition tensorSub_at :: "float list \<Rightarrow> nat \<Rightarrow> tensor \<Rightarrow> float list" where
  "tensorSub_at p base t = foldl (\<lambda>p i. p[base + i := p ! (base + i) - t ! i]) p [0..<81]"

definition calcCubaticOrderParameter :: "tensor \<Rightarrow> tensor \<Rightarrow> float" where
  "calcCubaticOrderParameter global_tensor cubatic_tensor =
     (let diff = tensorSub global_tensor cubatic_tensor
      in Fin 1 - tensorDot diff diff / tensorDot cubatic_tensor cubatic_tensor)"

text \<open>
  The random unit axis.  The source writes these five statements twice, before the loop
  and inside it.
\<close>

definition draw_axis :: "generator \<Rightarrow> vec3 \<times> generator" where
  "draw_axis g =
     (let (theta, g) = m_theta_dist g;
          (u, g) = m_phi_dist g;
          phi = facos (Fin 2 * u - Fin 1);
          axis = Vec3 (fcos theta * fsin phi) (fsin theta * fsin phi) (fcos phi);
          axis_norm = fsqrt (dot axis axis)
      in (vdiv axis axis_norm, g))"

text \<open>
  One pass through the body of the annealing loop, after \<^verbatim>\<open>loop_count++\<close>.  The object
  outlives an exception, so each outcome carries the members as the pass leaves them:
  \<open>Thrown\<close> is the \<^verbatim>\<open>throw\<close>, \<open>Rejected\<close> the \<^verbatim>\<open>continue\<close>, and \<open>Accepted\<close>
  falls through to \<^verbatim>\<open>t_current *= m_scale\<close>.
\<close>

datatype iteration =
    Thrown error CubaticOrderParameter
  | Rejected CubaticOrderParameter
  | Accepted CubaticOrderParameter

definition anneal_body :: "CubaticOrderParameter \<Rightarrow> float \<Rightarrow> iteration" where
  "anneal_body st t_current =
     (let (axis, g) = draw_axis (m_gen st);
          (a, g) = m_angle_dist g;
          angle = Fin (1 / 10) * a;
          current_orientation = qmul (fromAxisAngle axis angle) (m_cubatic_orientation st);
          st = st\<lparr>m_gen := g\<rparr>;
          new_cubatic_tensor = calcCubaticTensor (m_gen_r4_tensor st) current_orientation;
          new_order_parameter = calcCubaticOrderParameter (m_global_tensor st) new_cubatic_tensor
      in if fne new_order_parameter new_order_parameter then
           Thrown (RuntimeError ''received negative value'') st
         else if m_cubatic_order_parameter st < new_order_parameter then
           Accepted (st\<lparr>m_cubatic_tensor := new_cubatic_tensor,
                        m_cubatic_order_parameter := new_order_parameter,
                        m_cubatic_orientation := current_orientation\<rparr>)
         else
           let boltzmann_factor =
                 fexp (- (m_cubatic_order_parameter st - new_order_parameter) / t_current);
               (test_value, g) = m_phi_dist (m_gen st);
               st = st\<lparr>m_gen := g\<rparr>
           in if test_value \<le> boltzmann_factor then
                Accepted (st\<lparr>m_cubatic_tensor := new_cubatic_tensor,
                             m_cubatic_order_parameter := new_order_parameter,
                             m_cubatic_orientation := current_orientation\<rparr>)
              else Rejected st)"

text \<open>
  The loop \<^verbatim>\<open>while ((t_current > m_t_final) && (loop_count < 10000))\<close>.  The result is
  the exception, if one was thrown, the object, and the final values of the two loop
  variables.
\<close>

function annealing_loop ::
  "CubaticOrderParameter \<Rightarrow> float \<Rightarrow> nat \<Rightarrow> error option \<times> CubaticOrderParameter \<times> float \<times> nat" where
  "annealing_loop st t_current loop_count =
     (if m_t_final st < t_current \<and> loop_count < 10000 then
        (case anneal_body st t_current of
           Thrown e st' \<Rightarrow> (Some e, st', t_current, loop_count + 1)
         | Rejected st' \<Rightarrow> annealing_loop st' t_current (loop_count + 1)
         | Accepted st' \<Rightarrow> annealing_loop st' (t_current * m_scale st') (loop_count + 1))
      else (None, st, t_current, loop_count))"
  by pat_completeness auto
termination
  by (relation "measure (\<lambda>(st, t_current, loop_count). 10000 - loop_count)") auto

declare annealing_loop.simps [simp del]

text \<open>
  \<^verbatim>\<open>CubaticOrderParameter::compute\<close>.  The result is the exception, if any, and the object
  as the call leaves it.
\<close>

definition tensor_assembly :: "CubaticOrderParameter \<Rightarrow> quat list \<Rightarrow> nat \<Rightarrow> CubaticOrderParameter" where
  "tensor_assembly st orientations n =
     (let particle_tensor = replicate (n * 81) (Fin 0);
          particle_tensor = ComputeParticleTensor particle_tensor orientations n;
          global_tensor = ComputeGlobalTensor particle_tensor n;
          particle_tensor =
            foldl (\<lambda>pt i. tensorSub_at pt (Index2D n 81 i 0) (m_gen_r4_tensor st))
                  particle_tensor [0..<n];
          global_tensor = tensorSub global_tensor (m_gen_r4_tensor st)
      in st\<lparr>m_global_tensor := global_tensor, m_particle_tensor := particle_tensor\<rparr>)"

definition initial_orientation :: "CubaticOrderParameter \<Rightarrow> CubaticOrderParameter" where
  "initial_orientation st =
     (let (axis, g) = draw_axis (m_gen st);
          (angle, g) = m_angle_dist g;
          current_orientation = fromAxisAngle axis angle;
          st = st\<lparr>m_gen := g, m_cubatic_orientation := current_orientation\<rparr>;
          st = st\<lparr>m_cubatic_tensor := calcCubaticTensor (m_gen_r4_tensor st) current_orientation\<rparr>
      in st\<lparr>m_cubatic_order_parameter :=
               calcCubaticOrderParameter (m_global_tensor st) (m_cubatic_tensor st)\<rparr>)"

definition compute ::
  "CubaticOrderParameter \<Rightarrow> quat list \<Rightarrow> nat \<Rightarrow> nat \<Rightarrow> error option \<times> CubaticOrderParameter" where
  "compute st orientations n n_replicates =
     (let st = tensor_assembly st orientations n;
          st = initial_orientation st
      in case annealing_loop st (m_t_initial st) 0 of
           (Some e, st, t_current, loop_count) \<Rightarrow> (Some e, st)
         | (None, st, t_current, loop_count) \<Rightarrow>
             (None, st\<lparr>m_n := n, m_n_replicates := n_replicates\<rparr>))"


section \<open>The anisotropic pair correlation (PMFXYZ)\<close>

text \<open>
  Modelled from the spec: the periodic box \<^verbatim>\<open>trajectory::Box\<close> and the cell list
  \<^verbatim>\<open>locality::LinkCell\<close> are external collaborators whose code is not part of the
  sources.  The spec gives their interfaces: the box has its three edge lengths, a 2D
  flag and the minimum-image map \<^verbatim>\<open>wrap\<close>; the cell list maps a point to its cell, a
  cell to its neighbouring cells, and a cell to the indices of the particles in it.  The
  maps are fields of the records, so every statement below holds for any implementation
  of them.
\<close>

record Box =
  getLx :: float
  getLy :: float
  getLz :: float
  is2D :: bool
  wrap :: "vec3 \<Rightarrow> vec3"

record LinkCell =
  getCell :: "vec3 \<Rightarrow> nat"
  getCellNeighbors :: "nat \<Rightarrow> nat list"
  itercell :: "nat \<Rightarrow> nat list"

text \<open>
  The histogram \<^verbatim>\<open>m_pcf_array\<close> is an array of \<^verbatim>\<open>unsigned int\<close> counters that the kernels
  address with an \<^verbatim>\<open>unsigned int\<close> expression: a store from 32-bit indices to 32-bit
  counters.
\<close>

type_synonym pcf_array = "32 word \<Rightarrow> 32 word"

record PMFXYZ =
  m_box :: Box
  m_max_x :: float
  m_max_y :: float
  m_max_z :: float
  m_dx :: float
  m_dy :: float
  m_dz :: float
  m_nbins_x :: "32 word"
  m_nbins_y :: "32 word"
  m_nbins_z :: "32 word"
  m_x_array :: "float list"
  m_y_array :: "float list"
  m_z_array :: "float list"
  m_pcf_array :: pcf_array

definition bin_centers :: "float \<Rightarrow> float \<Rightarrow> 32 word \<Rightarrow> float list" where
  "bin_centers m_max m_d nbins =
     map (\<lambda>i. let x = Fin (real i) * m_d; nextx = Fin (real (i + 1)) * m_d
              in - m_max + (x + nextx) / Fin 2)
         [0..<unat nbins]"

definition PMFXYZ_init ::
  "Box \<Rightarrow> float \<Rightarrow> float \<Rightarrow> float \<Rightarrow> float \<Rightarrow> float \<Rightarrow> float \<Rightarrow> error + PMFXYZ" where
  "PMFXYZ_init box max_x max_y max_z dx dy dz =
     (if dx < Fin 0 then Inl (InvalidArgument ''dx must be positive'')
      else if dy < Fin 0 then Inl (InvalidArgument ''dy must be positive'')
      else if dz < Fin 0 then Inl (InvalidArgument ''dz must be positive'')
      else if max_x < Fin 0 then Inl (InvalidArgument ''max_x must be positive'')
      else if max_y < Fin 0 then Inl (InvalidArgument ''max_y must be positive'')
      else if max_z < Fin 0 then Inl (InvalidArgument ''max_z must be positive'')
      else if max_x < dx then Inl (InvalidArgument ''max_x must be greater than dx'')
      else if max_y < dy then Inl (InvalidArgument ''max_y must be greater than dy'')
      else if max_z < dz then Inl (InvalidArgument ''max_z must be greater than dz'')
      else if getLx box / Fin 2 < max_x \<or> getLy box / Fin 2 < max_y then
        Inl (InvalidArgument ''max_x, max_y must be smaller than half the smallest box size'')
      else if getLz box / Fin 2 < max_z \<and> \<not> is2D box then
        Inl (InvalidArgument ''max_z must be smaller than half the smallest box size'')
      else
        let nbins_x = cvtt_ss2si (Fin 2 * floorf (max_x / dx));
            nbins_y = cvtt_ss2si (Fin 2 * floorf (max_y / dy));
            nbins_z = cvtt_ss2si (Fin 2 * floorf (max_z / dz))
        in Inr \<lparr> m_box = box,
                   m_max_x = max_x, m_max_y = max_y, m_max_z = max_z,
                   m_dx = dx, m_dy = dy, m_dz = dz,
                   m_nbins_x = nbins_x, m_nbins_y = nbins_y, m_nbins_z = nbins_z,
                   m_x_array = bin_centers max_x dx nbins_x,
                   m_y_array = bin_centers max_y dy nbins_y,
                   m_z_array = bin_centers max_z dz nbins_z,
                   m_pcf_array = (\<lambda>i. 0) \<rparr>)"

definition fmin :: "float \<Rightarrow> float \<Rightarrow> float" where
  "fmin a b = (if a = NaN then b else if b = NaN then a else if b < a then b else a)"

definition useCells :: "PMFXYZ \<Rightarrow> bool" where
  "useCells pm =
     (let l_min = fmin (getLx (m_box pm)) (getLy (m_box pm));
          l_min = (if \<not> is2D (m_box pm) then fmin l_min (getLz (m_box pm)) else l_min);
          rmax = fsqrt (m_max_x pm * m_max_x pm + m_max_y pm * m_max_y pm
                        + m_max_z pm * m_max_z pm)
      in rmax < l_min / Fin 3)"

definition resetPCF :: "PMFXYZ \<Rightarrow> PMFXYZ" where
  "resetPCF pm = pm\<lparr>m_pcf_array := (\<lambda>i. 0)\<rparr>"

text \<open>
  The body of the innermost loop.  The two kernels \<^verbatim>\<open>ComputePMFTWithoutCellList\<close> and
  \<^verbatim>\<open>ComputePMFTWithCellList\<close> run the same statements on a reference particle \<open>i\<close> and a
  target \<open>j\<close>; they differ in the targets they visit.  The atomic increments commute, so
  the parallel loop over the references is modelled by the sequential one.
\<close>

definition bin_pair ::
  "PMFXYZ \<Rightarrow> vec3 \<Rightarrow> quat \<Rightarrow> quat \<Rightarrow> vec3 \<Rightarrow> pcf_array \<Rightarrow> pcf_array" where
  "bin_pair pm ref ref_orientation extra_orientation point pcf =
     (let dx_inv = Fin 1 / m_dx pm;
          dy_inv = Fin 1 / m_dy pm;
          dz_inv = Fin 1 / m_dz pm;
          dx = vx ref - vx point;
          dy = vy ref - vy point;
          dz = vz ref - vz point;
          delta = wrap (m_box pm) (Vec3 dx dy dz);
          xsq = vx delta * vx delta;
          ysq = vy delta * vy delta;
          zsq = vz delta * vz delta
      in if xsq < Fin (1 / 10 ^ 6) \<and> ysq < Fin (1 / 10 ^ 6) \<and> zsq < Fin (1 / 10 ^ 6) then pcf
         else
           let v = rotate_quat (conj_quat ref_orientation) delta;
               v = rotate_quat extra_orientation v;
               x = vx v + m_max_x pm;
               y = vy v + m_max_y pm;
               z = vz v + m_max_z pm;
               binx = floorf (x * dx_inv);
               biny = floorf (y * dy_inv);
               binz = floorf (z * dz_inv);
               ibinx = cvtt_ss2si binx;
               ibiny = cvtt_ss2si biny;
               ibinz = cvtt_ss2si binz
           in if ibinx < m_nbins_x pm \<and> ibiny < m_nbins_y pm \<and> ibinz < m_nbins_z pm then
                pcf(ibinz * m_nbins_y pm * m_nbins_x pm + ibiny * m_nbins_x pm + ibinx :=
                      pcf (ibinz * m_nbins_y pm * m_nbins_x pm + ibiny * m_nbins_x pm + ibinx) + 1)
              else pcf)"

definition ComputePMFTWithoutCellList ::
  "PMFXYZ \<Rightarrow> vec3 list \<Rightarrow> quat list \<Rightarrow> nat \<Rightarrow> vec3 list \<Rightarrow> nat \<Rightarrow> quat list
     \<Rightarrow> pcf_array \<Rightarrow> pcf_array" where
  "ComputePMFTWithoutCellList pm ref_points ref_orientations Nref points Np extra_orientations pcf =
     foldl (\<lambda>pcf i.
              foldl (\<lambda>pcf j. bin_pair pm (ref_points ! i) (ref_orientations ! i)
                                      (extra_orientations ! i) (points ! j) pcf)
                    pcf [0..<Np])
           pcf [0..<Nref]"

definition ComputePMFTWithCellList ::
  "PMFXYZ \<Rightarrow> LinkCell \<Rightarrow> vec3 list \<Rightarrow> quat list \<Rightarrow> nat \<Rightarrow> vec3 list \<Rightarrow> nat \<Rightarrow> quat list
     \<Rightarrow> pcf_array \<Rightarrow> pcf_array" where
  "ComputePMFTWithCellList pm lc ref_points ref_orientations Nref points Np extra_orientations pcf =
     foldl (\<lambda>pcf i.
              let ref_cell = getCell lc (ref_points ! i);
                  neigh_cells = getCellNeighbors lc ref_cell
              in foldl (\<lambda>pcf neigh_idx.
                          let neigh_cell = neigh_cells ! neigh_idx
                          in foldl (\<lambda>pcf j. bin_pair pm (ref_points ! i) (ref_orientations ! i)
                                                  (extra_orientations ! i) (points ! j) pcf)
                                   pcf (itercell lc neigh_cell))
                       pcf [0..<length neigh_cells])
           pcf [0..<Nref]"

text \<open>
  \<^verbatim>\<open>PMFXYZ::compute\<close>.  The call \<^verbatim>\<open>m_lc->computeCellList(points, Np)\<close> of the external
  cell list is the argument \<open>computeCellList\<close>.
\<close>

definition PMFXYZ_compute ::
  "PMFXYZ \<Rightarrow> (vec3 list \<Rightarrow> nat \<Rightarrow> LinkCell) \<Rightarrow> vec3 list \<Rightarrow> quat list \<Rightarrow> nat \<Rightarrow> vec3 list
     \<Rightarrow> nat \<Rightarrow> quat list \<Rightarrow> PMFXYZ" where
  "PMFXYZ_compute pm computeCellList ref_points ref_orientations Nref points Np extra_orientations =
     (if useCells pm then
        pm\<lparr>m_pcf_array :=
             ComputePMFTWithCellList pm (computeCellList points Np) ref_points ref_orientations
               Nref points Np extra_orientations (m_pcf_array pm)\<rparr>
      else
        pm\<lparr>m_pcf_array :=
             ComputePMFTWithoutCellList pm ref_points ref_orientations Nref points Np
               extra_orientations (m_pcf_array pm)\<rparr>)"

section \<open>The tensor formulas of the specification\<close>

text \<open>
  The specification writes the outer product by components:
  \<open>outer4(v)[i,j,k,l] = v\<^sub>i \<cdot> v\<^sub>j \<cdot> v\<^sub>k \<cdot> v\<^sub>l\<close>, stored at the flat index
  \<open>((i*3+j)*3+k)*3+l\<close>.
\<close>

definition component :: "vec3 \<Rightarrow> nat \<Rightarrow> float" where
  "component v i = [vx v, vy v, vz v] ! i"

definition spec_outer4 :: "vec3 \<Rightarrow> nat \<Rightarrow> nat \<Rightarrow> nat \<Rightarrow> nat \<Rightarrow> float" where
  "spec_outer4 v i j k l = component v i * component v j * component v k * component v l"


text \<open>
  The squared norm of the specification, \<open>\<parallel>T\<parallel>\<^sup>2 = \<Sum>\<^sub>n T[n] \<cdot> T[n]\<close> over the 81 cells, and the
  invariant of the retained state: the cubatic tensor is the one of the retained
  orientation and the score is \<open>1 - \<parallel>G - M*\<parallel>\<^sup>2 / \<parallel>M*\<parallel>\<^sup>2\<close>.
\<close>

definition spec_norm2 :: "tensor \<Rightarrow> float" where
  "spec_norm2 t = foldl (+) (Fin 0) (map (\<lambda>n. t ! n * t ! n) [0..<81])"

definition consistent :: "CubaticOrderParameter \<Rightarrow> bool" where
  "consistent st \<longleftrightarrow>
     m_cubatic_tensor st = calcCubaticTensor (m_gen_r4_tensor st) (m_cubatic_orientation st)
     \<and> m_cubatic_order_parameter st =
         Fin 1 - spec_norm2 (map (\<lambda>n. m_global_tensor st ! n - m_cubatic_tensor st ! n) [0..<81])
                 / spec_norm2 (m_cubatic_tensor st)"

text \<open>The members that the annealing stage only reads.\<close>

definition same_inputs :: "CubaticOrderParameter \<Rightarrow> CubaticOrderParameter \<Rightarrow> bool" where
  "same_inputs st st' \<longleftrightarrow>
     m_t_initial st' = m_t_initial st \<and> m_t_final st' = m_t_final st
     \<and> m_scale st' = m_scale st
     \<and> m_n st' = m_n st \<and> m_n_replicates st' = m_n_replicates st
     \<and> m_global_tensor st' = m_global_tensor st
     \<and> m_particle_tensor st' = m_particle_tensor st
     \<and> m_gen_r4_tensor st' = m_gen_r4_tensor st"

text \<open>
  The quantities of one pass of the loop: the proposed orientation \<open>\<Omega>'\<close>, its score
  \<open>s'\<close>, the generator after the three draws of the proposal, and the uniform number that
  the acceptance test draws next.
\<close>

definition proposal_gen :: "CubaticOrderParameter \<Rightarrow> generator" where
  "proposal_gen st = snd (m_angle_dist (snd (draw_axis (m_gen st))))"

definition proposed_orientation :: "CubaticOrderParameter \<Rightarrow> quat" where
  "proposed_orientation st =
     qmul (fromAxisAngle (fst (draw_axis (m_gen st)))
             (Fin (1 / 10) * fst (m_angle_dist (snd (draw_axis (m_gen st))))))
          (m_cubatic_orientation st)"

definition proposed_score :: "CubaticOrderParameter \<Rightarrow> float" where
  "proposed_score st =
     calcCubaticOrderParameter (m_global_tensor st)
       (calcCubaticTensor (m_gen_r4_tensor st) (proposed_orientation st))"

definition test_draw :: "CubaticOrderParameter \<Rightarrow> float" where
  "test_draw st = fst (m_phi_dist (proposal_gen st))"

definition commit :: "CubaticOrderParameter \<Rightarrow> generator \<Rightarrow> CubaticOrderParameter" where
  "commit st g =
     st\<lparr>m_gen := g,
        m_cubatic_tensor := calcCubaticTensor (m_gen_r4_tensor st) (proposed_orientation st),
        m_cubatic_order_parameter := proposed_score st,
        m_cubatic_orientation := proposed_orientation st\<rparr>"

section \<open>The binning rule of the specification\<close>







section \<open>Concrete inputs\<close>

text \<open>
  The crystal of the specification's scenario A: every particle has the identity
  orientation, and the generator tensor is twice the sum of the outer products of the
  three basis vectors (the cells \<open>0000\<close>, \<open>1111\<close> and \<open>2222\<close> hold 2).  The quaternion
  \<open>tilt_quat\<close> turns by \<open>2 \<cdot> arccos (24/25)\<close>, about 32.5 degrees, around the x axis;
  a proposal reaches it from the identity when the generator delivers \<open>0\<close> and \<open>1/2\<close>
  for the axis and \<open>tilt_draw\<close>, about 0.903, for the angle.
\<close>

definition identity_quat :: quat where
  "identity_quat = Quat (Fin 1) (Vec3 (Fin 0) (Fin 0) (Fin 0))"

definition scenario_r4 :: tensor where
  "scenario_r4 = map (\<lambda>n. if n = 0 \<or> n = 40 \<or> n = 80 then Fin 2 else Fin 0) [0..<81]"

definition tilt_quat :: quat where
  "tilt_quat = Quat (Fin (24 / 25)) (Vec3 (Fin (7 / 25)) (Fin 0) (Fin 0))"

definition tilt_draw :: real where
  "tilt_draw = 10 * arccos (24 / 25) / pi"

definition scenario_engine :: "tensor \<Rightarrow> generator \<Rightarrow> CubaticOrderParameter" where
  "scenario_engine r4 g =
     \<lparr> m_t_initial = Fin 1, m_t_final = Fin (1 / 2), m_scale = Fin (1 / 2),
       m_n = 0, m_n_replicates = 1,
       m_global_tensor = zero_tensor, m_cubatic_tensor = zero_tensor,
       m_particle_tensor = [],
       m_gen_r4_tensor = r4,
       m_cubatic_order_parameter = Fin 0,
       m_cubatic_orientation = identity_quat,
       m_gen = g \<rparr>"

text \<open>
  A run on the crystal with the generator tensor of scenario A.  The first angle drawn is
  0, so the annealer starts at the identity; every later proposal is the tilt.
\<close>

definition stuck_draws :: generator where
  "stuck_draws = 0 ## 1 / 2 ## 0 ## cycle [0, 1 / 2, tilt_draw, 1 / 2]"

definition stuck_state :: CubaticOrderParameter where
  "stuck_state =
     \<lparr> m_t_initial = Fin 1, m_t_final = Fin (1 / 2), m_scale = Fin (1 / 2),
       m_n = 0, m_n_replicates = 1,
       m_global_tensor = zero_tensor, m_cubatic_tensor = zero_tensor,
       m_particle_tensor = zero_tensor,
       m_gen_r4_tensor = scenario_r4,
       m_cubatic_order_parameter = NaN,
       m_cubatic_orientation = identity_quat,
       m_gen = cycle [0, 1 / 2, tilt_draw, 1 / 2] \<rparr>"

text \<open>
  A run on the same crystal with the zero generator tensor: the annealer starts at the
  identity, where the score is 1, and the first proposal is the tilt, tested against the
  draw \<open>1/4\<close>.
\<close>

definition downhill_draws :: generator where
  "downhill_draws = 0 ## 1 / 2 ## 0 ## 0 ## 1 / 2 ## tilt_draw ## 1 / 4 ## sconst 0"

definition peak_state :: CubaticOrderParameter where
  "peak_state =
     \<lparr> m_t_initial = Fin 1, m_t_final = Fin (1 / 2), m_scale = Fin (1 / 2),
       m_n = 0, m_n_replicates = 1,
       m_global_tensor = scenario_r4, m_cubatic_tensor = scenario_r4,
       m_particle_tensor = scenario_r4,
       m_gen_r4_tensor = zero_tensor,
       m_cubatic_order_parameter = Fin 1,
       m_cubatic_orientation = identity_quat,
       m_gen = 0 ## 1 / 2 ## tilt_draw ## 1 / 4 ## sconst 0 \<rparr>"

definition tilted_state :: CubaticOrderParameter where
  "tilted_state =
     peak_state\<lparr> m_gen := sconst 0,
                 m_cubatic_tensor := calcCubaticTensor zero_tensor tilt_quat,
                 m_cubatic_order_parameter := Fin (68975908801 / 152587890625),
                 m_cubatic_orientation := tilt_quat \<rparr>"

text \<open>
  A cubic box of edge 10 with its minimum-image map, and the grids built in it by the
  constructor with the same half-extent and step on the three axes.
\<close>

definition minimum_image :: "float \<Rightarrow> float \<Rightarrow> float" where
  "minimum_image L x = x - L * floorf (x / L + Fin (1 / 2))"

definition scenario_box :: Box where
  "scenario_box =
     \<lparr> getLx = Fin 10, getLy = Fin 10, getLz = Fin 10, is2D = False,
       wrap = (\<lambda>v. Vec3 (minimum_image (Fin 10) (vx v)) (minimum_image (Fin 10) (vy v))
                        (minimum_image (Fin 10) (vz v))) \<rparr>"


section \<open>Arithmetic and tensor lemmas\<close>

lemma upt3: "[0..<3] = [0, 1, 2]"
  by code_simp

lemma float_zero_add: "Fin 0 + x = x"
  by (cases x) simp_all


lemma float_mult_commute: "(a::float) * b = b * a"
  by (cases a; cases b) (simp_all add: mult.commute)

lemma lt3: "(i::nat) < 3 \<Longrightarrow> i = 0 \<or> i = 1 \<or> i = 2"
  by arith

lemma idx4_lt:
  "i < 3 \<Longrightarrow> j < 3 \<Longrightarrow> k < 3 \<Longrightarrow> l < 3 \<Longrightarrow> ((i * 3 + j) * 3 + k) * 3 + l < (81::nat)"
  by arith

lemma tensorProduct_nth:
  assumes "i < 3" "j < 3" "k < 3" "l < 3"
  shows "tensorProduct v ! (((i * 3 + j) * 3 + k) * 3 + l) = spec_outer4 v i j k l"
  using lt3[OF assms(1)] lt3[OF assms(2)] lt3[OF assms(3)] lt3[OF assms(4)]
  by (auto simp add: tensorProduct_def upt3 spec_outer4_def component_def)

lemma length_tensorProduct: "length (tensorProduct v) = 81"
  by (simp add: tensorProduct_def upt3)

lemma tensorAdd_nth: "k < 81 \<Longrightarrow> tensorAdd a b ! k = a ! k + b ! k"
  by (simp add: tensorAdd_def)

lemma tensorSub_nth: "k < 81 \<Longrightarrow> tensorSub a b ! k = a ! k - b ! k"
  by (simp add: tensorSub_def)

lemma tensorMult_nth: "k < 81 \<Longrightarrow> tensorMult a c ! k = a ! k * c"
  by (simp add: tensorMult_def)

lemma zero_tensor_nth: "k < 81 \<Longrightarrow> zero_tensor ! k = Fin 0"
  by (simp add: zero_tensor_def)

lemma length_tensorAdd: "length (tensorAdd a b) = 81"
  by (simp add: tensorAdd_def)

lemma length_tensorSub: "length (tensorSub a b) = 81"
  by (simp add: tensorSub_def)

lemma length_tensorMult: "length (tensorMult a c) = 81"
  by (simp add: tensorMult_def)

lemma system_vectors_nth:
  "system_vectors ! 0 = Vec3 (Fin 1) (Fin 0) (Fin 0)"
  "system_vectors ! 1 = Vec3 (Fin 0) (Fin 1) (Fin 0)"
  "system_vectors ! 2 = Vec3 (Fin 0) (Fin 0) (Fin 1)"
  by (simp_all add: system_vectors_def)

lemma calcCubaticTensor_nth:
  assumes n: "n < 81"
  shows "calcCubaticTensor r4 q ! n =
     (tensorProduct (rotate_quat q (system_vectors ! 0)) ! n
      + tensorProduct (rotate_quat q (system_vectors ! 1)) ! n
      + tensorProduct (rotate_quat q (system_vectors ! 2)) ! n) * Fin 2 - r4 ! n"
  using n
  by (simp add: calcCubaticTensor_def upt3 tensorSub_nth tensorMult_nth tensorAdd_nth
      zero_tensor_nth float_zero_add)

lemma length_calcCubaticTensor: "length (calcCubaticTensor r4 q) = 81"
  by (simp add: calcCubaticTensor_def Let_def length_tensorSub)

lemma float_mult_one: "x * Fin 1 = x"
  by (cases x) simp_all

lemma foldl_map_sum:
  "foldl (\<lambda>s j. s + f j) a [0..<(n::nat)] = foldl (+) (a::float) (map f [0..<n])"
  by (induction n) simp_all

lemma tensorDot_self: "tensorDot t t = spec_norm2 t"
  by (simp add: tensorDot_def spec_norm2_def foldl_map_sum)

lemma calcCubaticOrderParameter_spec:
  "calcCubaticOrderParameter global_tensor cubatic_tensor =
     Fin 1 - spec_norm2 (map (\<lambda>n. global_tensor ! n - cubatic_tensor ! n) [0..<81])
             / spec_norm2 cubatic_tensor"
  by (simp add: calcCubaticOrderParameter_def Let_def tensorDot_self tensorSub_def)

lemma consistent_iff:
  "consistent st \<longleftrightarrow>
     m_cubatic_tensor st = calcCubaticTensor (m_gen_r4_tensor st) (m_cubatic_orientation st)
     \<and> m_cubatic_order_parameter st =
         calcCubaticOrderParameter (m_global_tensor st) (m_cubatic_tensor st)"
  by (simp add: consistent_def calcCubaticOrderParameter_spec)

lemma consistent_gen: "consistent (st\<lparr>m_gen := g\<rparr>) = consistent st"
  by (simp add: consistent_iff)

lemma same_inputs_refl: "same_inputs st st"
  by (simp add: same_inputs_def)

lemma same_inputs_trans: "same_inputs a b \<Longrightarrow> same_inputs b c \<Longrightarrow> same_inputs a c"
  by (simp add: same_inputs_def)

subsection \<open>One pass of the annealing loop\<close>

lemma fne_self: "fne x x \<longleftrightarrow> x = NaN"
  by (simp add: fne_def)

lemma anneal_body_unfold:
  "anneal_body st t =
     (if proposed_score st = NaN then
        Thrown (RuntimeError ''received negative value'') (st\<lparr>m_gen := proposal_gen st\<rparr>)
      else if m_cubatic_order_parameter st < proposed_score st then
        Accepted (commit st (proposal_gen st))
      else if test_draw st
              \<le> fexp (- (m_cubatic_order_parameter st - proposed_score st) / t) then
        Accepted (commit st (snd (m_phi_dist (proposal_gen st))))
      else Rejected (st\<lparr>m_gen := snd (m_phi_dist (proposal_gen st))\<rparr>))"
  by (simp add: anneal_body_def Let_def fne_self proposal_gen_def proposed_orientation_def
      proposed_score_def test_draw_def commit_def split: prod.splits)

lemma commit_same_inputs: "same_inputs st (commit st g)"
  by (simp add: same_inputs_def commit_def)

lemma commit_consistent: "consistent (commit st g)"
  by (simp add: consistent_iff commit_def proposed_score_def)

lemma commit_score: "m_cubatic_order_parameter (commit st g) = proposed_score st"
  by (simp add: commit_def)

lemma anneal_body_Accepted_commit:
  "anneal_body st t = Accepted st' \<Longrightarrow> \<exists>g. st' = commit st g"
  unfolding anneal_body_unfold by (auto split: if_splits)

lemma anneal_body_Accepted:
  "anneal_body st t = Accepted st' \<Longrightarrow> same_inputs st st' \<and> consistent st'"
  using anneal_body_Accepted_commit[of st t st'] commit_same_inputs commit_consistent by blast

lemma anneal_body_Rejected:
  "anneal_body st t = Rejected st' \<Longrightarrow> same_inputs st st' \<and> (\<exists>g. st' = st\<lparr>m_gen := g\<rparr>)"
  unfolding anneal_body_unfold by (auto simp: same_inputs_def split: if_splits)

lemma anneal_body_Thrown:
  "anneal_body st t = Thrown e st' \<Longrightarrow> same_inputs st st' \<and> (\<exists>g. st' = st\<lparr>m_gen := g\<rparr>)"
  unfolding anneal_body_unfold by (auto simp: same_inputs_def split: if_splits)

lemma float_not_less: "a \<noteq> NaN \<Longrightarrow> b \<noteq> NaN \<Longrightarrow> \<not> a < b \<Longrightarrow> b \<le> (a::float)"
  by (cases a; cases b) simp_all

lemma float_le_not_nan: "(a::float) \<le> b \<Longrightarrow> a \<noteq> NaN \<and> b \<noteq> NaN"
  by (cases a; cases b) simp_all

lemma fexp_not_nan: "fexp x \<noteq> NaN \<Longrightarrow> x \<noteq> NaN"
  by (cases x) simp_all

lemma float_divide_not_nan: "(a::float) / b \<noteq> NaN \<Longrightarrow> a \<noteq> NaN"
  by (cases a; cases b) simp_all

lemma float_uminus_not_nan: "- (a::float) \<noteq> NaN \<Longrightarrow> a \<noteq> NaN"
  by (cases a) simp_all

lemma float_minus_not_nan: "(a::float) - b \<noteq> NaN \<Longrightarrow> a \<noteq> NaN \<and> b \<noteq> NaN"
  by (cases a; cases b) (simp_all add: minus_float_def)

lemma boltzmann_not_nan:
  assumes "u \<le> fexp (- (old - new) / t)"
  shows "old \<noteq> NaN \<and> new \<noteq> NaN"
proof -
  have "fexp (- (old - new) / t) \<noteq> NaN" using float_le_not_nan[OF assms] by simp
  then have "- (old - new) / t \<noteq> NaN" by (rule fexp_not_nan)
  then have "- (old - new) \<noteq> NaN" by (rule float_divide_not_nan)
  then have "old - new \<noteq> NaN" by (rule float_uminus_not_nan)
  then show ?thesis by (rule float_minus_not_nan)
qed

lemma anneal_body_Accepted_score:
  assumes "anneal_body st t = Accepted st'"
  shows "m_cubatic_order_parameter st < m_cubatic_order_parameter st'
         \<or> (m_cubatic_order_parameter st' \<le> m_cubatic_order_parameter st
            \<and> test_draw st
                \<le> fexp (- (m_cubatic_order_parameter st - m_cubatic_order_parameter st') / t))"
proof -
  obtain g where st': "st' = commit st g"
    using anneal_body_Accepted_commit[OF assms] by blast
  show ?thesis
  proof (cases "m_cubatic_order_parameter st < proposed_score st")
    case True
    then show ?thesis by (simp add: st' commit_score)
  next
    case False
    with assms have b: "test_draw st
        \<le> fexp (- (m_cubatic_order_parameter st - proposed_score st) / t)"
      unfolding anneal_body_unfold by (simp split: if_splits)
    from boltzmann_not_nan[OF b] False
    have "proposed_score st \<le> m_cubatic_order_parameter st"
      by (intro float_not_less) simp_all
    with b show ?thesis by (simp add: st' commit_score)
  qed
qed

lemma anneal_body_Accepted_not_nan:
  "anneal_body st t = Accepted st' \<Longrightarrow> m_cubatic_order_parameter st' \<noteq> NaN"
  unfolding anneal_body_unfold by (auto simp: commit_score split: if_splits)

lemma anneal_body_nan_Thrown:
  "proposed_score st = NaN \<Longrightarrow>
   anneal_body st t = Thrown (RuntimeError ''received negative value'') (st\<lparr>m_gen := proposal_gen st\<rparr>)"
  unfolding anneal_body_unfold by simp

subsection \<open>The loop and the whole call\<close>

lemma annealing_loop_exit:
  "\<not> (m_t_final st < t \<and> lc < 10000) \<Longrightarrow> annealing_loop st t lc = (None, st, t, lc)"
  by (subst annealing_loop.simps) auto

lemma annealing_loop_Thrown:
  "m_t_final st < t \<and> lc < 10000 \<Longrightarrow> anneal_body st t = Thrown e st' \<Longrightarrow>
   annealing_loop st t lc = (Some e, st', t, lc + 1)"
  by (subst annealing_loop.simps) simp

lemma annealing_loop_Rejected:
  "m_t_final st < t \<and> lc < 10000 \<Longrightarrow> anneal_body st t = Rejected st' \<Longrightarrow>
   annealing_loop st t lc = annealing_loop st' t (lc + 1)"
  by (subst annealing_loop.simps) simp

lemma annealing_loop_Accepted:
  "m_t_final st < t \<and> lc < 10000 \<Longrightarrow> anneal_body st t = Accepted st' \<Longrightarrow>
   annealing_loop st t lc = annealing_loop st' (t * m_scale st') (lc + 1)"
  by (subst annealing_loop.simps) simp

lemma annealing_loop_invariant:
  "consistent st \<Longrightarrow>
   consistent (fst (snd (annealing_loop st t lc)))
   \<and> same_inputs st (fst (snd (annealing_loop st t lc)))"
proof (induction st t lc rule: annealing_loop.induct)
  case (1 st t lc)
  show ?case
  proof (cases "m_t_final st < t \<and> lc < 10000")
    case False
    then show ?thesis using 1(3) by (simp add: annealing_loop_exit same_inputs_refl)
  next
    case True
    show ?thesis
    proof (cases "anneal_body st t")
      case (Thrown e st')
      then show ?thesis using anneal_body_Thrown[OF Thrown] 1(3)
        by (auto simp: annealing_loop_Thrown[OF True Thrown] consistent_gen)
    next
      case (Rejected st')
      have "consistent st'" using anneal_body_Rejected[OF Rejected] 1(3)
        by (auto simp: consistent_gen)
      from 1(1)[OF True Rejected this] anneal_body_Rejected[OF Rejected]
      show ?thesis unfolding annealing_loop_Rejected[OF True Rejected]
        by (blast intro: same_inputs_trans)
    next
      case (Accepted st')
      have "consistent st'" using anneal_body_Accepted[OF Accepted] by simp
      from 1(2)[OF True Accepted this] anneal_body_Accepted[OF Accepted]
      show ?thesis unfolding annealing_loop_Accepted[OF True Accepted]
        by (blast intro: same_inputs_trans)
    qed
  qed
qed

lemma annealing_loop_count:
  "(case annealing_loop st t lc of (e, st', t', lc') \<Rightarrow>
      lc \<le> lc' \<and> lc' \<le> max lc 10000
      \<and> (e = None \<longrightarrow> \<not> (m_t_final st' < t' \<and> lc' < 10000)))"
proof (induction st t lc rule: annealing_loop.induct)
  case (1 st t lc)
  show ?case
  proof (cases "m_t_final st < t \<and> lc < 10000")
    case False
    then show ?thesis by (simp add: annealing_loop_exit)
  next
    case True
    show ?thesis
    proof (cases "anneal_body st t")
      case (Thrown e st')
      then show ?thesis using True by (simp add: annealing_loop_Thrown[OF True Thrown])
    next
      case (Rejected st')
      from 1(1)[OF True Rejected] True
      show ?thesis unfolding annealing_loop_Rejected[OF True Rejected]
        by (auto split: prod.splits)
    next
      case (Accepted st')
      from 1(2)[OF True Accepted] True
      show ?thesis unfolding annealing_loop_Accepted[OF True Accepted]
        by (auto split: prod.splits)
    qed
  qed
qed

lemma initial_orientation_consistent: "consistent (initial_orientation st)"
  by (simp add: initial_orientation_def Let_def consistent_iff split: prod.splits)


lemma compute_consistent: "consistent (snd (compute st orientations n n_replicates))"
proof -
  let ?s = "initial_orientation (tensor_assembly st orientations n)"
  have c: "consistent (fst (snd (annealing_loop ?s (m_t_initial ?s) 0)))"
    using annealing_loop_invariant[OF initial_orientation_consistent] by blast
  obtain e s' t' lc' where r: "annealing_loop ?s (m_t_initial ?s) 0 = (e, s', t', lc')"
    by (cases "annealing_loop ?s (m_t_initial ?s) 0") auto
  with c have "consistent s'" by simp
  then show ?thesis using r
    by (cases e) (simp_all add: compute_def Let_def consistent_iff)
qed


subsection \<open>The particle-tensor array\<close>

lemma write_cells_length:
  "length (foldl (\<lambda>p j. p[base + j := f p j]) p [0..<m]) = length p"
  by (induction m) simp_all

lemma write_row_nth:
  "idx < length p \<Longrightarrow>
   foldl (\<lambda>p j. p[base + j := row ! j]) p [0..<m] ! idx =
     (if base \<le> idx \<and> idx < base + m then row ! (idx - base) else p ! idx)"
proof (induction m)
  case 0
  then show ?case by auto
next
  case (Suc m)
  let ?F = "foldl (\<lambda>p j. p[base + j := row ! j]) p [0..<m]"
  have len: "length ?F = length p"
    by (rule write_cells_length)
  show ?case
  proof (cases "idx = base + m")
    case True
    then show ?thesis using Suc.prems len by simp
  next
    case False
    then have "?F[base + m := row ! m] ! idx = ?F ! idx" by simp
    then show ?thesis using Suc False by auto
  qed
qed

lemma sub_cells_nth:
  "idx < length p \<Longrightarrow>
   foldl (\<lambda>p i. p[base + i := p ! (base + i) - t ! i]) p [0..<m] ! idx =
     (if base \<le> idx \<and> idx < base + m then p ! idx - t ! (idx - base) else p ! idx)"
proof (induction m arbitrary: idx)
  case 0
  then show ?case by auto
next
  case (Suc m)
  let ?F = "foldl (\<lambda>p i. p[base + i := p ! (base + i) - t ! i]) p [0..<m]"
  have len: "length ?F = length p"
    by (rule write_cells_length)
  show ?case
  proof (cases "idx = base + m")
    case True
    then have "?F ! (base + m) = p ! (base + m)"
      using Suc.IH[of "base + m"] Suc.prems by simp
    then show ?thesis using True Suc.prems len by simp
  next
    case False
    then have "?F[base + m := ?F ! (base + m) - t ! m] ! idx = ?F ! idx" by simp
    then show ?thesis using Suc.IH[OF Suc.prems] False by auto
  qed
qed

lemma tensorSub_at_length: "length (tensorSub_at p base t) = length p"
  unfolding tensorSub_at_def by (rule write_cells_length)

lemma tensorSub_at_nth:
  "idx < length p \<Longrightarrow>
   tensorSub_at p base t ! idx =
     (if base \<le> idx \<and> idx < base + 81 then p ! idx - t ! (idx - base) else p ! idx)"
  unfolding tensorSub_at_def by (rule sub_cells_nth)

lemma particle_rows_length:
  "length (foldl (\<lambda>pt i. foldl (\<lambda>pt j. pt[Index2D n 81 i j := row i ! j]) pt [0..<81])
                 pt [0..<m]) = length pt"
  by (induction m) (simp_all add: Index2D_def write_cells_length)

lemma row_of_cell:
  "k < 81 \<Longrightarrow> (m * 81 \<le> i * 81 + k \<and> i * 81 + k < m * 81 + 81) = (i = (m::nat))"
  by arith

lemma particle_rows_nth:
  assumes "i < n" "k < 81" "length pt = n * 81"
  shows "foldl (\<lambda>pt i. foldl (\<lambda>pt j. pt[Index2D n 81 i j := row i ! j]) pt [0..<81])
               pt [0..<m] ! (i * 81 + k)
         = (if i < m then row i ! k else pt ! (i * 81 + k))"
proof (induction m)
  case 0
  then show ?case by simp
next
  case (Suc m)
  let ?F = "foldl (\<lambda>pt i. foldl (\<lambda>pt j. pt[Index2D n 81 i j := row i ! j]) pt [0..<81])
                  pt [0..<m]"
  have len: "length ?F = n * 81" using assms(3) by (simp add: particle_rows_length)
  have idx: "i * 81 + k < length ?F" using assms len by simp
  have "foldl (\<lambda>pt j. pt[m * 81 + j := row m ! j]) ?F [0..<81] ! (i * 81 + k)
        = (if m * 81 \<le> i * 81 + k \<and> i * 81 + k < m * 81 + 81
           then row m ! (i * 81 + k - m * 81) else ?F ! (i * 81 + k))"
    by (rule write_row_nth[OF idx])
  then show ?case using Suc row_of_cell[OF assms(2), of m i] by (auto simp: Index2D_def)
qed

lemma ComputeParticleTensor_length:
  "length (ComputeParticleTensor pt orientations n) = length pt"
  unfolding ComputeParticleTensor_def Let_def by (rule particle_rows_length)

lemma ComputeParticleTensor_nth:
  assumes "i < n" "k < 81" "length pt = n * 81"
  shows "ComputeParticleTensor pt orientations n ! (i * 81 + k)
         = particle_l_mbar (orientations ! i) ! k"
  unfolding ComputeParticleTensor_def Let_def
  using particle_rows_nth[OF assms, of "\<lambda>i. particle_l_mbar (orientations ! i)" n] assms(1)
  by simp



lemma ComputeGlobalTensor_nth:
  assumes "k < 81"
  shows "ComputeGlobalTensor pt n ! k =
     foldl (+) (Fin 0) (map (\<lambda>j. pt ! (j * 81 + k)) [0..<n]) * (Fin 1 / Fin (real n))"
  using assms unfolding ComputeGlobalTensor_def Let_def
  by (simp add: Index2D_def foldl_map_sum)


lemma length_particle_l_mbar: "length (particle_l_mbar q) = 81"
  by (simp add: particle_l_mbar_def Let_def length_tensorMult)



section \<open>Evaluation on the concrete inputs\<close>

lemma upt9: "[0..<9] = [0, 1, 2, 3, 4, 5, 6, 7, 8]"
  by code_simp

lemma upt81: "[0..<81] = concat (map (\<lambda>i. map (\<lambda>j. 9 * i + j) [0..<9]) [0..<9])"
  by code_simp

lemma zero_tensor_list: "zero_tensor = map (\<lambda>i. Fin 0) [0..<81]"
  by (simp add: zero_tensor_def map_replicate_const)

lemmas vec_defs = rotate_quat_def vadd_def vscale_def dot_def cross_def vdiv_def vneg_def
  qmul_def fromAxisAngle_def conj_quat_def minus_float_def

lemmas tensor_defs = tensorProduct_def tensorAdd_def tensorMult_def tensorSub_def
  zero_tensor_list tensorDot_def upt3 upt81 upt9 minus_float_def

lemmas dist_defs = m_theta_dist_def m_phi_dist_def m_angle_dist_def
  uniform_real_distribution_def

lemma rotate_identity:
  "rotate_quat identity_quat (Vec3 (Fin a) (Fin b) (Fin c)) = Vec3 (Fin a) (Fin b) (Fin c)"
  by (simp add: identity_quat_def vec_defs)

lemma rotate_tilt:
  "rotate_quat tilt_quat (Vec3 (Fin 1) (Fin 0) (Fin 0)) = Vec3 (Fin 1) (Fin 0) (Fin 0)"
  "rotate_quat tilt_quat (Vec3 (Fin 0) (Fin 1) (Fin 0))
     = Vec3 (Fin 0) (Fin (527 / 625)) (Fin (336 / 625))"
  "rotate_quat tilt_quat (Vec3 (Fin 0) (Fin 0) (Fin 1))
     = Vec3 (Fin 0) (Fin (- 336 / 625)) (Fin (527 / 625))"
  by (simp_all add: tilt_quat_def vec_defs)

lemma particle_l_mbar_identity: "particle_l_mbar identity_quat = scenario_r4"
  by (simp add: particle_l_mbar_def system_vectors_def rotate_identity upt3)
     (simp add: tensor_defs scenario_r4_def)

lemma cubatic_tensor_identity:
  "calcCubaticTensor scenario_r4 identity_quat = zero_tensor"
  "calcCubaticTensor zero_tensor identity_quat = scenario_r4"
  by (simp_all add: calcCubaticTensor_def system_vectors_def rotate_identity upt3)
     (simp_all add: tensor_defs scenario_r4_def)

lemma score_undefined: "calcCubaticOrderParameter zero_tensor zero_tensor = NaN"
  by (simp add: calcCubaticOrderParameter_def tensor_defs)

lemma score_peak: "calcCubaticOrderParameter scenario_r4 scenario_r4 = Fin 1"
  by (simp add: calcCubaticOrderParameter_def tensor_defs scenario_r4_def)

lemma score_tilt_stuck:
  "calcCubaticOrderParameter zero_tensor (calcCubaticTensor scenario_r4 tilt_quat) = Fin 0"
  by (simp add: calcCubaticTensor_def system_vectors_def rotate_tilt upt3)
     (simp add: calcCubaticOrderParameter_def tensor_defs scenario_r4_def)

lemma score_tilt_peak:
  "calcCubaticOrderParameter scenario_r4 (calcCubaticTensor zero_tensor tilt_quat)
     = Fin (68975908801 / 152587890625)"
  by (simp add: calcCubaticTensor_def system_vectors_def rotate_tilt upt3)
     (simp add: calcCubaticOrderParameter_def tensor_defs scenario_r4_def)

lemma tensorSub_scenario:
  "tensorSub scenario_r4 scenario_r4 = zero_tensor"
  "tensorSub scenario_r4 zero_tensor = scenario_r4"
  by (simp_all add: tensor_defs scenario_r4_def)

lemma draw_axis_x: "draw_axis (0 ## 1 / 2 ## g) = (Vec3 (Fin 1) (Fin 0) (Fin 0), g)"
  by (simp add: draw_axis_def dist_defs Let_def vec_defs)

lemma sqrt_49_625: "sqrt (49 / 625) = 7 / 25"
proof -
  have "sqrt ((7 / 25)\<^sup>2) = \<bar>7 / 25 :: real\<bar>" by (rule real_sqrt_abs)
  then show ?thesis by (simp add: power2_eq_square)
qed

lemma tilt_angle: "m_angle_dist (tilt_draw ## g) = (Fin (20 * arccos (24 / 25)), g)"
  by (simp add: dist_defs tilt_draw_def)

lemma tilt_from_axis:
  "qmul (fromAxisAngle (Vec3 (Fin 1) (Fin 0) (Fin 0)) (Fin (2 * arccos (24 / 25))))
     identity_quat = tilt_quat"
  by (simp add: vec_defs identity_quat_def tilt_quat_def sin_arccos power2_eq_square
      sqrt_49_625)

lemma phi_draw: "m_phi_dist (u ## g) = (Fin u, g)"
  by (simp add: dist_defs)

lemma zero_angle: "m_angle_dist (0 ## g) = (Fin 0, g)"
  by (simp add: dist_defs)

lemma identity_from_axis:
  "fromAxisAngle (Vec3 (Fin 1) (Fin 0) (Fin 0)) (Fin 0) = identity_quat"
  by (simp add: vec_defs identity_quat_def)

lemma length_scenario_r4: "length scenario_r4 = 81"
  by (simp add: scenario_r4_def)

lemma length_zero_tensor: "length zero_tensor = 81"
  by (simp add: zero_tensor_def)

lemma copy_tensor: "length t = 81 \<Longrightarrow> map (\<lambda>i. t ! i) [0..<81] = t"
  using map_nth[of t] by simp

lemma scenario_engine_init:
  "length r4 = 81 \<Longrightarrow>
   CubaticOrderParameter_init (Fin 1) (Fin (1 / 2)) (Fin (1 / 2)) r4 (Fin 0) identity_quat g
     = Inr (scenario_engine r4 g)"
  by (simp add: CubaticOrderParameter_init_def scenario_engine_def copy_tensor)

lemma single_particle_tensor:
  assumes "k < 81"
  shows "ComputeParticleTensor (replicate 81 (Fin 0)) [q] 1 ! k = particle_l_mbar q ! k"
  using ComputeParticleTensor_nth[of 0 1 k "replicate 81 (Fin 0)" "[q]"] assms by simp

lemma tensor_assembly_single:
  "tensor_assembly st [q] 1 =
     st\<lparr>m_global_tensor := tensorSub (particle_l_mbar q) (m_gen_r4_tensor st),
        m_particle_tensor := tensorSub (particle_l_mbar q) (m_gen_r4_tensor st)\<rparr>"
proof -
  let ?pt = "ComputeParticleTensor (replicate 81 (Fin 0)) [q] 1"
  let ?r4 = "m_gen_r4_tensor st"
  have g: "tensorSub (ComputeGlobalTensor ?pt 1) ?r4 = tensorSub (particle_l_mbar q) ?r4"
    unfolding tensorSub_def
  proof (rule map_cong[OF refl])
    fix k assume "k \<in> set [0..<81]"
    then have k: "k < 81" by simp
    have "ComputeGlobalTensor ?pt 1 ! k = particle_l_mbar q ! k"
      using ComputeGlobalTensor_nth[OF k, of ?pt 1] single_particle_tensor[OF k, of q]
      by (simp add: float_zero_add float_mult_one)
    then show "ComputeGlobalTensor ?pt 1 ! k - ?r4 ! k = particle_l_mbar q ! k - ?r4 ! k"
      by simp
  qed
  have p: "tensorSub_at ?pt 0 ?r4 = tensorSub (particle_l_mbar q) ?r4"
  proof (rule nth_equalityI)
    show "length (tensorSub_at ?pt 0 ?r4) = length (tensorSub (particle_l_mbar q) ?r4)"
      by (simp add: tensorSub_at_length ComputeParticleTensor_length length_tensorSub)
  next
    fix k assume "k < length (tensorSub_at ?pt 0 ?r4)"
    then have k: "k < 81" by (simp add: tensorSub_at_length ComputeParticleTensor_length)
    have len: "length ?pt = 81" by (simp add: ComputeParticleTensor_length)
    show "tensorSub_at ?pt 0 ?r4 ! k = tensorSub (particle_l_mbar q) ?r4 ! k"
      using k tensorSub_at_nth[of k ?pt 0 ?r4] len single_particle_tensor[OF k, of q]
      by (simp add: tensorSub_nth)
  qed
  show ?thesis
    using g p by (simp add: tensor_assembly_def Let_def Index2D_def)
qed

lemma cycle4: "cycle [a, b, c, d] = a ## b ## c ## d ## cycle [a, b, c, d]"
  by (subst cycle_decomp) simp_all

lemma initial_stuck:
  "initial_orientation (tensor_assembly (scenario_engine scenario_r4 stuck_draws)
     [identity_quat] 1) = stuck_state"
  unfolding tensor_assembly_single particle_l_mbar_identity
  by (simp add: initial_orientation_def scenario_engine_def stuck_draws_def draw_axis_x
      zero_angle identity_from_axis tensorSub_scenario cubatic_tensor_identity
      score_undefined stuck_state_def)

lemma initial_peak:
  "initial_orientation (tensor_assembly (scenario_engine zero_tensor downhill_draws)
     [identity_quat] 1) = peak_state"
  unfolding tensor_assembly_single particle_l_mbar_identity
  by (simp add: initial_orientation_def scenario_engine_def downhill_draws_def draw_axis_x
      zero_angle identity_from_axis tensorSub_scenario cubatic_tensor_identity
      score_peak peak_state_def)

lemma stuck_rejected: "anneal_body stuck_state t = Rejected stuck_state"
  apply (simp add: anneal_body_def stuck_state_def)
  apply (subst cycle4)
  apply (simp add: draw_axis_x tilt_angle tilt_from_axis score_tilt_stuck fne_def phi_draw
      Let_def minus_float_def)
  done

lemma boltzmann_bound: "1 \<le> exp (- (83611981824 / 152587890625 :: real)) * 4"
proof -
  have "1 + (- (83611981824 / 152587890625 :: real)) \<le> exp (- (83611981824 / 152587890625))"
    by (rule exp_ge_add_one_self)
  then show ?thesis by simp
qed

lemma peak_accepted: "anneal_body peak_state (Fin 1) = Accepted tilted_state"
  apply (simp add: anneal_body_def peak_state_def tilted_state_def)
  apply (simp add: draw_axis_x tilt_angle tilt_from_axis score_tilt_peak fne_def phi_draw
      Let_def minus_float_def boltzmann_bound)
  done

lemma peak_test_draw: "test_draw peak_state = Fin (1 / 4)"
  by (simp add: test_draw_def proposal_gen_def peak_state_def draw_axis_x tilt_angle phi_draw)

lemma stuck_loop:
  assumes "anneal_body st t = Rejected st" "m_t_final st < t"
  shows "lc \<le> 10000 \<Longrightarrow> annealing_loop st t lc = (None, st, t, 10000)"
proof (induction "10000 - lc" arbitrary: lc)
  case 0
  then have "lc = 10000" by simp
  then show ?case by (simp add: annealing_loop_exit)
next
  case (Suc d)
  then have lt: "m_t_final st < t \<and> lc < 10000" and d: "d = 10000 - (lc + 1)"
    and le: "lc + 1 \<le> 10000"
    using assms(2) by simp_all
  show ?case
    unfolding annealing_loop_Rejected[OF lt assms(1)] by (rule Suc.hyps(1)[OF d le])
qed

lemma stuck_compute:
  "compute (scenario_engine scenario_r4 stuck_draws) [identity_quat] 1 1
     = (None, stuck_state\<lparr>m_n := 1, m_n_replicates := 1\<rparr>)"
proof -
  have t: "m_t_final stuck_state < Fin 1" "m_t_initial stuck_state = Fin 1"
    by (simp_all add: stuck_state_def)
  have "annealing_loop stuck_state (Fin 1) 0 = (None, stuck_state, Fin 1, 10000)"
    by (rule stuck_loop[OF stuck_rejected t(1)]) simp
  then show ?thesis
    unfolding compute_def Let_def initial_stuck t by simp
qed

section \<open>Lemmas on the pair binning\<close>













lemma PMFXYZ_init_fields:
  assumes "PMFXYZ_init box max_x max_y max_z dx dy dz = Inr pm"
  shows "m_max_x pm = max_x" "m_max_y pm = max_y" "m_max_z pm = max_z"
    "m_dx pm = dx" "m_dy pm = dy" "m_dz pm = dz" "m_box pm = box"
    "m_nbins_x pm = cvtt_ss2si (Fin 2 * floorf (max_x / dx))"
    "m_nbins_y pm = cvtt_ss2si (Fin 2 * floorf (max_y / dy))"
    "m_nbins_z pm = cvtt_ss2si (Fin 2 * floorf (max_z / dz))"
    "\<not> max_x < Fin 0" "\<not> max_y < Fin 0" "\<not> max_z < Fin 0"
    "\<not> max_x < dx" "\<not> max_y < dy" "\<not> max_z < dz"
  using assms unfolding PMFXYZ_init_def Let_def
  by (auto split: if_splits)

lemma uint_word_of_int_small:
  "0 \<le> k \<Longrightarrow> k < 2 ^ 31 \<Longrightarrow> uint (word_of_int k :: 32 word) = k"
  by (simp add: uint_word_of_int take_bit_int_eq_self)





section \<open>Lemmas on the two constructors\<close>

lemma PMFXYZ_init_fails_iff:
  "isl (PMFXYZ_init box max_x max_y max_z dx dy dz)
   \<longleftrightarrow> dx < Fin 0 \<or> dy < Fin 0 \<or> dz < Fin 0
       \<or> max_x < Fin 0 \<or> max_y < Fin 0 \<or> max_z < Fin 0
       \<or> max_x < dx \<or> max_y < dy \<or> max_z < dz
       \<or> getLx box / Fin 2 < max_x \<or> getLy box / Fin 2 < max_y
       \<or> (getLz box / Fin 2 < max_z \<and> \<not> is2D box)"
  by (simp add: PMFXYZ_init_def Let_def)

lemma CubaticOrderParameter_init_fails_iff:
  "isl (CubaticOrderParameter_init t_initial t_final scale r4 order_parameter0 orientation0 gen0)
   \<longleftrightarrow> t_initial < t_final \<or> t_final < Fin (1 / 10 ^ 6) \<or> Fin 1 < scale \<or> scale < Fin 0"
  by (simp add: CubaticOrderParameter_init_def)

lemma cvtt_le: "\<not> x < Fin 0 \<Longrightarrow> uint (cvtt_ss2si x) \<le> 2 ^ 31"
proof (cases x)
  case (Fin r)
  assume "\<not> x < Fin 0"
  with Fin have r: "0 \<le> r" by simp
  then have t: "trunc_real r = \<lfloor>r\<rfloor>" "0 \<le> \<lfloor>r\<rfloor>" by (simp_all add: trunc_real_def)
  show ?thesis
  proof (cases "\<lfloor>r\<rfloor> < 2 ^ 31")
    case True
    then have "cvtt_ss2si x = word_of_int \<lfloor>r\<rfloor>" using Fin t by simp
    then show ?thesis using uint_word_of_int_small[OF t(2) True] True by simp
  next
    case False
    then have "cvtt_ss2si x = 0x80000000" using Fin t by simp
    then show ?thesis by simp
  qed
qed simp_all

lemma nbins_arg_nonneg:
  "\<not> d < Fin 0 \<Longrightarrow> \<not> m < Fin 0 \<Longrightarrow> \<not> Fin 2 * floorf (m / d) < Fin 0"
  by (cases m; cases d) (auto simp: divide_less_0_iff)

lemma PMFXYZ_init_nbins_le:
  assumes "PMFXYZ_init box max_x max_y max_z dx dy dz = Inr pm"
  shows "uint (m_nbins_x pm) \<le> 2 ^ 31 \<and> uint (m_nbins_y pm) \<le> 2 ^ 31
         \<and> uint (m_nbins_z pm) \<le> 2 ^ 31"
proof -
  have "\<not> isl (PMFXYZ_init box max_x max_y max_z dx dy dz)" using assms by simp
  then have "\<not> dx < Fin 0" "\<not> dy < Fin 0" "\<not> dz < Fin 0"
    "\<not> max_x < Fin 0" "\<not> max_y < Fin 0" "\<not> max_z < Fin 0"
    unfolding PMFXYZ_init_fails_iff by blast+
  then show ?thesis
    unfolding PMFXYZ_init_fields(8,9,10)[OF assms]
    by (intro conjI cvtt_le nbins_arg_nonneg)
qed

lemma PMFXYZ_init_fails_nonzero_steps:
  assumes "ddx \<noteq> 0" "ddy \<noteq> 0" "ddz \<noteq> 0"
  shows "isl (PMFXYZ_init box (Fin mx) (Fin my) (Fin mz) (Fin ddx) (Fin ddy) (Fin ddz))
   \<longleftrightarrow> (ddx \<le> 0 \<or> ddy \<le> 0 \<or> ddz \<le> 0)
       \<or> (mx < ddx \<or> my < ddy \<or> mz < ddz)
       \<or> getLx box / Fin 2 < Fin mx \<or> getLy box / Fin 2 < Fin my
       \<or> (getLz box / Fin 2 < Fin mz \<and> \<not> is2D box)"
  unfolding PMFXYZ_init_fails_iff using assms by auto

lemma CubaticOrderParameter_init_fails_off_boundary:
  assumes "t_initial \<noteq> t_final" "t_final \<noteq> 1 / 10 ^ 6"
  shows "isl (CubaticOrderParameter_init (Fin t_initial) (Fin t_final) (Fin scale) r4
                order_parameter0 orientation0 gen0)
   \<longleftrightarrow> t_initial \<le> t_final \<or> t_final \<le> 1 / 10 ^ 6 \<or> \<not> (0 \<le> scale \<and> scale \<le> 1)"
  unfolding CubaticOrderParameter_init_fails_iff using assms by auto




section \<open>Claims\<close>

text \<open>
  Claim C1.  After every call of \<^verbatim>\<open>CubaticOrderParameter::compute\<close>, whether it returns or
  throws, the retained state is consistent: the retained tensor is the cubatic tensor of
  the retained orientation, and the retained score equals
  \<open>1 - \<parallel>G - M*\<parallel>\<^sup>2 / \<parallel>M*\<parallel>\<^sup>2\<close> for the stored global tensor \<open>G\<close> and the stored cubatic
  tensor \<open>M*\<close>.  Every commit inside the annealing loop leaves a consistent state.
\<close>

theorem compute_retains_consistent_score:
  "consistent (snd (compute st orientations n n_replicates))
   \<and> (\<forall>t st'. anneal_body st t = Accepted st' \<longrightarrow> consistent st')"
  using compute_consistent anneal_body_Accepted by blast

theorem compute_retains_consistent_score_witness:
  "anneal_body peak_state (Fin 1) = Accepted tilted_state
   \<and> Fin (68975908801 / 152587890625) =
       Fin 1 - spec_norm2 (map (\<lambda>n. m_global_tensor tilted_state ! n
                                    - m_cubatic_tensor tilted_state ! n) [0..<81])
               / spec_norm2 (m_cubatic_tensor tilted_state)
   \<and> consistent (snd (compute peak_state [identity_quat] 1 1))"
proof -
  have "consistent tilted_state"
    using compute_retains_consistent_score[of peak_state "[identity_quat]" 1 1] peak_accepted
    by blast
  moreover have "m_cubatic_order_parameter tilted_state = Fin (68975908801 / 152587890625)"
    by (simp add: tilted_state_def)
  ultimately show ?thesis
    using compute_retains_consistent_score[of peak_state "[identity_quat]" 1 1] peak_accepted
    by (simp add: consistent_def)
qed





text \<open>
  Claim C4.  For every orientation \<open>\<Omega>\<close> and every generator tensor, the tensor that
  \<^verbatim>\<open>calcCubaticTensor\<close> returns has, at each index \<open>(i,j,k,l)\<close>, the value
  \<open>2 \<cdot> (outer4(u\<^sub>0) + outer4(u\<^sub>1) + outer4(u\<^sub>2)) - R4\<close>, where \<open>u\<^sub>m\<close> is the world basis
  vector \<open>e\<^sub>m\<close> rotated by \<open>\<Omega>\<close>.
\<close>

theorem calcCubaticTensor_formula:
  assumes "i < 3" "j < 3" "k < 3" "l < 3"
  shows "calcCubaticTensor r4 \<Omega> ! (((i * 3 + j) * 3 + k) * 3 + l) =
     Fin 2 * (spec_outer4 (rotate_quat \<Omega> (Vec3 (Fin 1) (Fin 0) (Fin 0))) i j k l
              + spec_outer4 (rotate_quat \<Omega> (Vec3 (Fin 0) (Fin 1) (Fin 0))) i j k l
              + spec_outer4 (rotate_quat \<Omega> (Vec3 (Fin 0) (Fin 0) (Fin 1))) i j k l)
     - r4 ! (((i * 3 + j) * 3 + k) * 3 + l)"
proof -
  show ?thesis
    unfolding calcCubaticTensor_nth[OF idx4_lt[OF assms]] tensorProduct_nth[OF assms]
      system_vectors_nth
    by (rule arg_cong2[where f="(-)"], rule float_mult_commute, rule refl)
qed

theorem calcCubaticTensor_formula_witness:
  "(1::nat) < 3 \<and>
   calcCubaticTensor zero_tensor (Quat (Fin (40 / 41)) (Vec3 (Fin (9 / 41)) (Fin 0) (Fin 0)))
     ! (((1 * 3 + 1) * 3 + 1) * 3 + 1) = Fin (11185306688642 / 7984925229121)"
  using calcCubaticTensor_formula[of 1 1 1 1 zero_tensor
      "Quat (Fin (40 / 41)) (Vec3 (Fin (9 / 41)) (Fin 0) (Fin 0))"]
  by (simp add: spec_outer4_def component_def rotate_quat_def vadd_def vscale_def dot_def
      cross_def minus_float_def zero_tensor_def)

text \<open>
  Claim C5, evaluated on the code.  The claim lets construction fail whenever
  \<open>t_initial \<le> t_final\<close>.  The constructor tests \<^verbatim>\<open>m_t_initial < m_t_final\<close>, so equal
  temperatures pass, against its own message ``t_initial must be greater than t_final'':
  with \<open>t_initial = t_final = 1\<close> and \<open>scale = 1/2\<close> the object is built.
\<close>

theorem CubaticOrderParameter_init_equal_temperatures:
  "Fin 1 \<le> Fin 1
   \<and> CubaticOrderParameter_init (Fin 1) (Fin 1) (Fin (1 / 2)) scenario_r4 (Fin 0)
        identity_quat (sconst 0)
     = Inr ((scenario_engine scenario_r4 (sconst 0))\<lparr>m_t_final := Fin 1\<rparr>)"
  by (simp add: CubaticOrderParameter_init_def scenario_engine_def copy_tensor
      length_scenario_r4)

text \<open>
  Claim C6, evaluated on the code.  The claim lets construction fail for every
  non-positive grid step.  The constructor tests \<^verbatim>\<open>dx < 0.0f\<close>, so a step of zero passes,
  against its own message ``dx must be positive'': in the box of edge 10 with
  half-extents 2, \<open>dx = 0\<close> and \<open>dy = dz = 1/2\<close>, the object is built, and the conversion of
  \<open>2 \<cdot> floor(2 / 0)\<close> leaves \<^verbatim>\<open>0x80000000\<close> in \<^verbatim>\<open>m_nbins_x\<close>.
\<close>

theorem PMFXYZ_init_zero_step:
  "Fin 0 \<le> Fin 0
   \<and> \<not> isl (PMFXYZ_init scenario_box (Fin 2) (Fin 2) (Fin 2) (Fin 0) (Fin (1 / 2))
              (Fin (1 / 2)))
   \<and> m_nbins_x (projr (PMFXYZ_init scenario_box (Fin 2) (Fin 2) (Fin 2) (Fin 0)
                         (Fin (1 / 2)) (Fin (1 / 2)))) = 0x80000000"
  by (simp add: PMFXYZ_init_def scenario_box_def Let_def)

text \<open>
  Claim C7.  The annealing loop terminates: it runs while \<open>t_current > t_final\<close> and fewer
  than 10000 passes have been made, so the pass counter never exceeds 10000 and, when no
  exception is thrown, the loop condition is false on exit.  A pass whose proposal is
  accepted multiplies \<open>t_current\<close> by \<open>scale\<close>; a pass whose proposal is rejected counts as
  a pass and leaves \<open>t_current\<close> unchanged.
\<close>

theorem annealing_loop_terminates:
  "(case annealing_loop st t lc of (e, st', t', lc') \<Rightarrow>
      lc \<le> lc' \<and> lc' \<le> max lc 10000
      \<and> (e = None \<longrightarrow> \<not> (m_t_final st' < t' \<and> lc' < 10000)))
   \<and> (m_t_final st < t \<and> lc < 10000 \<longrightarrow>
        (\<forall>st'. anneal_body st t = Accepted st' \<longrightarrow>
           annealing_loop st t lc = annealing_loop st' (t * m_scale st) (lc + 1))
      \<and> (\<forall>st'. anneal_body st t = Rejected st' \<longrightarrow>
           annealing_loop st t lc = annealing_loop st' t (lc + 1))
      \<and> (\<forall>e st'. anneal_body st t = Thrown e st' \<longrightarrow>
           annealing_loop st t lc = (Some e, st', t, lc + 1)))
   \<and> (\<not> (m_t_final st < t \<and> lc < 10000) \<longrightarrow> annealing_loop st t lc = (None, st, t, lc))"
proof -
  have "annealing_loop st t lc = annealing_loop st' (t * m_scale st) (lc + 1)"
    if "m_t_final st < t \<and> lc < 10000" "anneal_body st t = Accepted st'" for st'
  proof -
    have "m_scale st' = m_scale st"
      using anneal_body_Accepted[OF that(2)] by (simp add: same_inputs_def)
    then show ?thesis using annealing_loop_Accepted[OF that] by simp
  qed
  then show ?thesis
    using annealing_loop_count[where st = st and t = t and lc = lc]
      annealing_loop_Rejected[where st = st and t = t and lc = lc]
      annealing_loop_Thrown[where st = st and t = t and lc = lc]
      annealing_loop_exit[where st = st and t = t and lc = lc]
    by blast
qed

theorem annealing_loop_terminates_witness:
  "m_t_final stuck_state < Fin 1
   \<and> anneal_body stuck_state (Fin 1) = Rejected stuck_state
   \<and> annealing_loop stuck_state (Fin 1) 0 = annealing_loop stuck_state (Fin 1) 1
   \<and> m_t_final peak_state < Fin 1
   \<and> anneal_body peak_state (Fin 1) = Accepted tilted_state
   \<and> annealing_loop peak_state (Fin 1) 0 = annealing_loop tilted_state (Fin (1 / 2)) 1
   \<and> annealing_loop stuck_state (Fin 1) 0 = (None, stuck_state, Fin 1, 10000)"
proof -
  have t: "m_t_final stuck_state < Fin 1 \<and> (0::nat) < 10000"
    "m_t_final peak_state < Fin 1 \<and> (0::nat) < 10000"
    by (simp_all add: stuck_state_def peak_state_def)
  have s: "Fin 1 * m_scale peak_state = Fin (1 / 2)"
    by (simp add: peak_state_def)
  have r: "annealing_loop stuck_state (Fin 1) 0 = annealing_loop stuck_state (Fin 1) (0 + 1)"
    using annealing_loop_terminates[where st = stuck_state and t = "Fin 1" and lc = 0] t(1)
      stuck_rejected
    by blast
  have a: "annealing_loop peak_state (Fin 1) 0
        = annealing_loop tilted_state (Fin 1 * m_scale peak_state) (0 + 1)"
    using annealing_loop_terminates[where st = peak_state and t = "Fin 1" and lc = 0] t(2)
      peak_accepted
    by blast
  have e: "annealing_loop stuck_state (Fin 1) 0 = (None, stuck_state, Fin 1, 10000)"
    using t(1) by (intro stuck_loop[OF stuck_rejected]) simp_all
  have r': "annealing_loop stuck_state (Fin 1) 0 = annealing_loop stuck_state (Fin 1) 1"
    using r by (simp only: add_0)
  have a': "annealing_loop peak_state (Fin 1) 0 = annealing_loop tilted_state (Fin (1 / 2)) 1"
    using a by (simp only: add_0 s)
  show ?thesis
    using t stuck_rejected[of "Fin 1"] peak_accepted r' a' e by blast
qed

text \<open>
  Claim C8, evaluated on the code.  Inside the loop a NaN score of a proposal throws
  (lemma \<open>anneal_body_nan_Thrown\<close>) and is never committed (lemma
  \<open>anneal_body_Accepted_not_nan\<close>).  The score of the initial orientation is computed by
  the same function and stored without that test.  On the crystal of scenario A, when the
  first angle drawn is 0, the initial orientation is the identity, \<open>G\<close> and \<open>M*\<close> are both
  zero and the initial score is \<open>0/0\<close>.  Every comparison with it is false, so no later
  proposal is accepted: the call makes its 10000 passes, returns without an exception and
  leaves NaN as the retained score.
\<close>

theorem compute_retains_initial_nan:
  "CubaticOrderParameter_init (Fin 1) (Fin (1 / 2)) (Fin (1 / 2)) scenario_r4 (Fin 0)
      identity_quat stuck_draws
     = Inr (scenario_engine scenario_r4 stuck_draws)
   \<and> compute (scenario_engine scenario_r4 stuck_draws) [identity_quat] 1 1
     = (None, stuck_state\<lparr>m_n := 1, m_n_replicates := 1\<rparr>)
   \<and> m_cubatic_order_parameter (stuck_state\<lparr>m_n := 1, m_n_replicates := 1\<rparr>) = NaN"
  using scenario_engine_init[OF length_scenario_r4, of stuck_draws] stuck_compute
  by (simp add: stuck_state_def)

text \<open>
  Claim C9 fails as stated.  On the crystal with the zero generator tensor the annealer
  starts at the identity with score 1; the first proposal, the tilt, has the score
  \<open>68975908801 / 152587890625\<close>, about 0.452, and the Boltzmann test against the draw
  \<open>1/4\<close> at temperature 1 accepts it: the retained score decreases.
\<close>

theorem accepted_score_decreases:
  "initial_orientation (tensor_assembly (scenario_engine zero_tensor downhill_draws)
      [identity_quat] 1) = peak_state
   \<and> anneal_body peak_state (Fin 1) = Accepted tilted_state
   \<and> m_cubatic_order_parameter peak_state = Fin 1
   \<and> m_cubatic_order_parameter tilted_state = Fin (68975908801 / 152587890625)
   \<and> m_cubatic_order_parameter tilted_state < m_cubatic_order_parameter peak_state
   \<and> \<not> m_cubatic_order_parameter peak_state \<le> m_cubatic_order_parameter tilted_state"
  using initial_peak peak_accepted by (simp add: peak_state_def tilted_state_def)

text \<open>
  Claim C9 as amended.  Whenever a proposal is accepted and committed, either the new
  score is strictly greater than the score retained before, or it is less than or equal
  to it and the Boltzmann factor \<open>exp(-(s - s') / t_current)\<close> is at least the uniform
  number drawn for the test.
\<close>

theorem accepted_score_metropolis:
  assumes "anneal_body st t = Accepted st'"
  shows "m_cubatic_order_parameter st < m_cubatic_order_parameter st'
         \<or> (m_cubatic_order_parameter st' \<le> m_cubatic_order_parameter st
            \<and> test_draw st
                \<le> fexp (- (m_cubatic_order_parameter st - m_cubatic_order_parameter st') / t))"
  using assms by (rule anneal_body_Accepted_score)

theorem accepted_score_metropolis_witness:
  "anneal_body peak_state (Fin 1) = Accepted tilted_state
   \<and> m_cubatic_order_parameter tilted_state \<le> m_cubatic_order_parameter peak_state
   \<and> Fin (1 / 4)
       \<le> fexp (- (m_cubatic_order_parameter peak_state
                    - m_cubatic_order_parameter tilted_state) / Fin 1)"
proof -
  have "\<not> m_cubatic_order_parameter peak_state < m_cubatic_order_parameter tilted_state"
    by (simp add: peak_state_def tilted_state_def)
  then show ?thesis
    using accepted_score_metropolis[OF peak_accepted] peak_accepted
    by (simp add: peak_test_draw)
qed



end
